theory Spec2Isabelle
  imports Main "HOL-Library.Sublist"
begin

section \<open>Python string operations used by the program\<close>

text \<open>
  A Python \<open>str\<close> is modelled as a \<open>string\<close>: one \<open>char\<close> per code point, for the code
  points below 256. \<open>length\<close> is Python's \<open>len\<close>.
\<close>

text \<open>The newline character, written \<open>"\n"\<close> in the source.\<close>

abbreviation NL :: char where
  "NL \<equiv> CHR 0x0A"

text \<open>
  \<open>find_idx sub s\<close>: the lowest index at which \<open>sub\<close> occurs in \<open>s\<close>, if there is one.
  \<open>str_find s sub\<close> is \<open>s.find(sub)\<close>, which answers \<open>-1\<close> when there is none, and
  \<open>contains sub s\<close> is \<open>sub in s\<close>.
\<close>

fun find_idx :: "string \<Rightarrow> string \<Rightarrow> nat option" where
  "find_idx sub [] = (if sub = [] then Some 0 else None)"
| "find_idx sub (c # cs) =
     (if prefix sub (c # cs) then Some 0 else map_option Suc (find_idx sub cs))"

definition str_find :: "string \<Rightarrow> string \<Rightarrow> int" where
  "str_find s sub = (case find_idx sub s of None \<Rightarrow> - 1 | Some i \<Rightarrow> int i)"

definition contains :: "string \<Rightarrow> string \<Rightarrow> bool" where
  "contains sub s = (find_idx sub s \<noteq> None)"

text \<open>
  \<open>str_split s sep maxsplit\<close> is \<open>s.split(sep, maxsplit)\<close>: cut at the occurrences of
  \<open>sep\<close> from the left, at most \<open>maxsplit\<close> times; a negative \<open>maxsplit\<close> (Python's
  default \<open>-1\<close>) is no limit. Python raises \<open>ValueError\<close> for an empty separator; the
  program only splits on the non-empty literals \<open>"\n"\<close>, \<open>"iteration"\<close>, \<open>"/"\<close> and
  \<open>"_"\<close>, and the model leaves the string uncut there.
\<close>

lemma find_idx_le: "find_idx sub s = Some j \<Longrightarrow> j + length sub \<le> length s"
proof (induction s arbitrary: j)
  case Nil
  then show ?case by (simp split: if_splits)
next
  case (Cons c cs)
  show ?case
  proof (cases "prefix sub (c # cs)")
    case True
    with Cons.prems have "j = 0" by simp
    with True show ?thesis using prefix_length_le [of sub "c # cs"] by simp
  next
    case False
    with Cons.prems obtain k where "find_idx sub cs = Some k" "j = Suc k" by auto
    with Cons.IH show ?thesis by simp
  qed
qed

function str_split :: "string \<Rightarrow> string \<Rightarrow> int \<Rightarrow> string list" where
  "str_split s sep maxsplit =
     (if maxsplit = 0 \<or> sep = [] then [s]
      else case find_idx sep s of
             None \<Rightarrow> [s]
           | Some j \<Rightarrow> take j s # str_split (drop (j + length sep) s) sep (maxsplit - 1))"
  by pat_completeness auto
termination
proof (relation "measure (\<lambda>(s, sep, maxsplit). length s)")
  show "wf (measure (\<lambda>(s, sep, maxsplit). length s))" by simp
next
  fix s sep :: string and maxsplit :: int and j :: nat
  assume "\<not> (maxsplit = 0 \<or> sep = [])" and "find_idx sep s = Some j"
  then have "sep \<noteq> []" and "j + length sep \<le> length s"
    by (simp_all add: find_idx_le)
  then have "length (drop (j + length sep) s) < length s"
    by (cases sep) simp_all
  then show "((drop (j + length sep) s, sep, maxsplit - 1), (s, sep, maxsplit))
               \<in> measure (\<lambda>(s, sep, maxsplit). length s)"
    by simp
qed

declare str_split.simps [simp del]



text \<open>
  \<open>strip\<close> is \<open>str.strip()\<close> with no argument: it removes the leading and the trailing
  white space. \<open>is_space\<close> lists the code points below 256 that Python takes for white
  space: tab to carriage return, the four separators \<open>0x1C\<close> to \<open>0x1F\<close>, the space,
  \<open>0x85\<close> and \<open>0xA0\<close>.
\<close>

definition is_space :: "char \<Rightarrow> bool" where
  "is_space c = (c \<in> set [CHR 0x09, CHR 0x0A, CHR 0x0B, CHR 0x0C, CHR 0x0D,
                           CHR 0x1C, CHR 0x1D, CHR 0x1E, CHR 0x1F, CHR 0x20,
                           CHR 0x85, CHR 0xA0])"

definition lstrip :: "string \<Rightarrow> string" where
  "lstrip s = dropWhile is_space s"

definition rstrip :: "string \<Rightarrow> string" where
  "rstrip s = rev (dropWhile is_space (rev s))"

definition strip :: "string \<Rightarrow> string" where
  "strip s = rstrip (lstrip s)"

text \<open>
  Slices. \<open>norm_index n i\<close> is the position a slice bound \<open>i\<close> stands for in a string of
  length \<open>n\<close>: a negative bound counts from the end, and every bound is clamped to
  \<open>0..n\<close>. \<open>slice s a b\<close> is \<open>s[a:b]\<close>, \<open>slice_from s a\<close> is \<open>s[a:]\<close> and
  \<open>slice_to s b\<close> is \<open>s[:b]\<close>; slicing never raises.
\<close>

definition norm_index :: "nat \<Rightarrow> int \<Rightarrow> nat" where
  "norm_index n i = (if i < 0 then nat (max 0 (int n + i)) else min n (nat i))"

definition slice :: "string \<Rightarrow> int \<Rightarrow> int \<Rightarrow> string" where
  "slice s a b =
     (let i = norm_index (length s) a; j = norm_index (length s) b
      in take (j - i) (drop i s))"

definition slice_from :: "string \<Rightarrow> int \<Rightarrow> string" where
  "slice_from s a = drop (norm_index (length s) a) s"

definition slice_to :: "string \<Rightarrow> int \<Rightarrow> string" where
  "slice_to s b = take (norm_index (length s) b) s"

text \<open>
  The exceptions of the program: \<open>IndexError\<close>, raised by \<open>xs[i]\<close> out of range, and
  \<open>MarkupError\<close> with its message, raised by the console library when a text printed as
  console markup has a closing tag that matches no open tag.
\<close>

datatype error = IndexError | MarkupError string

text \<open>
  The console library is not part of the repository. Its markup parser is a parameter
  of the model: \<open>mk text\<close> is \<open>None\<close> when \<open>text\<close> renders, and the message of the
  \<open>MarkupError\<close> raised otherwise.
\<close>

type_synonym markup = "string \<Rightarrow> string option"

text \<open>
  An instance of the markup parser for the examples: it refuses the texts that contain
  the closing tag \<open>[/x]\<close>, which matches no tag that the program opens, and its message
  quotes the tag, as the library's message does.
\<close>

definition refuse_close_x :: markup where
  "refuse_close_x text =
     (if contains ''[/x]'' text then Some ''closing tag [/x] does not match any open tag''
      else None)"

text \<open>Indexing a list, \<open>xs[i]\<close> for \<open>i \<ge> 0\<close>.\<close>

definition getitem :: "'a list \<Rightarrow> nat \<Rightarrow> error + 'a" where
  "getitem xs i = (if i < length xs then Inr (xs ! i) else Inl IndexError)"

section \<open>The progress handler\<close>

text \<open>
  \<open>RLMProgressHandler.emit\<close> prints to the console. What it prints is kept as a list of
  events: the rule \<open>Step <iter_num>\<close> (\<open>IterationStart\<close>), the panel with the reasoning
  (\<open>ReasoningBlock\<close>) and the panel with the code (\<open>CodeBlock\<close>), each with the text
  shown. The blank line printed before the rule carries nothing and is left out.
\<close>

datatype event = IterationStart string | ReasoningBlock string | CodeBlock string

text \<open>
  The two segments cut out of the body (the lines
  \<open>reasoning_start = ...\<close> to \<open>code = ""\<close> of \<open>emit\<close>).
\<close>

definition segments :: "string \<Rightarrow> string \<times> string" where
  "segments content =
     (let reasoning_start = str_find content ''Reasoning:'' + int (length ''Reasoning:'');
          code_start = str_find content ''Code:''
      in if code_start > 0
         then (strip (slice content reasoning_start code_start),
               strip (slice_from content (code_start + int (length ''Code:''))))
         else (strip (slice_from content reasoning_start), []))"

text \<open>The text shown in the reasoning panel.\<close>

definition reasoning_display :: "string \<Rightarrow> string" where
  "reasoning_display reasoning =
     (if length reasoning > 500 then slice_to reasoning 500 @ ''...'' else reasoning)"

text \<open>
  The fence is taken off the code, between two \<open>strip\<close>s: the first of the prefixes
  \<open>```python\<close> and \<open>```\<close> that the code starts with (the loop over the two prefixes,
  with its \<open>break\<close>), then a closing \<open>```\<close>.
\<close>

definition strip_open_fence :: "string \<Rightarrow> string" where
  "strip_open_fence code =
     (if prefix ''```python'' code then slice_from code (int (length ''```python''))
      else if prefix ''```'' code then slice_from code (int (length ''```''))
      else code)"

definition strip_close_fence :: "string \<Rightarrow> string" where
  "strip_close_fence code = (if suffix ''```'' code then slice_to code (- 3) else code)"

definition strip_fence :: "string \<Rightarrow> string" where
  "strip_fence code = strip (strip_close_fence (strip_open_fence (strip code)))"

text \<open>The text shown in the code panel.\<close>

definition code_display :: "string \<Rightarrow> string" where
  "code_display code =
     (if length code > 800 then slice_to code 800 @ [NL] @ ''# ... (truncated)'' else code)"

text \<open>
  The step number read from the first line:
  \<open>header.split("iteration")[1].strip().split("/")[0].strip()\<close>.
\<close>

definition iter_num_of :: "string \<Rightarrow> error + string" where
  "iter_num_of header =
     (case getitem (str_split header ''iteration'' (- 1)) 1 of
        Inl e \<Rightarrow> Inl e
      | Inr seg \<Rightarrow>
          (case getitem (str_split (strip seg) ''/'' (- 1)) 0 of
             Inl e \<Rightarrow> Inl e
           | Inr num \<Rightarrow> Inr (strip num)))"

text \<open>
  The panels printed for a body that contains \<open>Reasoning:\<close> (from \<open>content = parts[1]\<close>
  to the end of \<open>emit\<close>).
\<close>

definition body_events :: "string \<Rightarrow> event list" where
  "body_events content =
     (let (reasoning, code) = segments content
      in (if reasoning \<noteq> [] then [ReasoningBlock (reasoning_display reasoning)] else [])
         @ (if code \<noteq> [] then [CodeBlock (code_display (strip_fence code))] else []))"

definition emit :: "string \<Rightarrow> error + event list" where
  "emit msg =
     (if \<not> contains ''RLM iteration'' msg then Inr []
      else
        let parts = str_split msg [NL] 1 in
        (case getitem parts 0 of
           Inl e \<Rightarrow> Inl e
         | Inr header \<Rightarrow>
             (case iter_num_of header of
                Inl e \<Rightarrow> Inl e
              | Inr iter_num \<Rightarrow>
                  if length parts \<le> 1 then Inr [IterationStart iter_num]
                  else (case getitem parts 1 of
                          Inl e \<Rightarrow> Inl e
                        | Inr content \<Rightarrow>
                            if \<not> contains ''Reasoning:'' content
                            then Inr [IterationStart iter_num]
                            else Inr (IterationStart iter_num # body_events content)))))"



section \<open>The corpus loader\<close>








section \<open>The history formatter\<close>

text \<open>\<open>str_int i\<close> is the decimal numeral that an f-string prints for the integer \<open>i\<close>.\<close>

definition digit_char :: "nat \<Rightarrow> char" where
  "digit_char d = char_of (48 + d)"

fun str_nat :: "nat \<Rightarrow> string" where
  "str_nat n = (if n < 10 then [digit_char n] else str_nat (n div 10) @ [digit_char (n mod 10)])"

declare str_nat.simps [simp del]

definition str_int :: "int \<Rightarrow> string" where
  "str_int i = (if i < 0 then ''-'' @ str_nat (nat (- i)) else str_nat (nat i))"

text \<open>\<open>str_join sep xs\<close> is \<open>sep.join(xs)\<close>.\<close>

fun str_join :: "string \<Rightarrow> string list \<Rightarrow> string" where
  "str_join sep [] = []"
| "str_join sep [x] = x"
| "str_join sep (x # y # ys) = x @ sep @ str_join sep (y # ys)"

text \<open>\<open>py_enumerate xs i\<close> is \<open>enumerate(xs, i)\<close>.\<close>

fun py_enumerate :: "'a list \<Rightarrow> int \<Rightarrow> (int \<times> 'a) list" where
  "py_enumerate [] i = []"
| "py_enumerate (x # xs) i = (i, x) # py_enumerate xs (i + 1)"

text \<open>
  \<open>format_history\<close>: the loop extends \<open>lines\<close> by two strings for every pair, the first
  of which starts with a newline.
\<close>

definition format_history :: "(string \<times> string) list \<Rightarrow> string" where
  "format_history history =
     (if history = [] then ''No previous conversation.''
      else str_join [NL]
             (fold (\<lambda>(i, q, a) lines.
                      lines @ [[NL] @ ''Q'' @ str_int i @ '': '' @ q,
                               ''A'' @ str_int i @ '': '' @ a])
                   (py_enumerate history 1)
                   [''Previous conversation:'']))"




section \<open>The session controller\<close>

text \<open>
  The result of the reasoning engine. \<open>answer\<close> is the attribute \<open>answer\<close> when the
  result has one, and \<open>repr\<close> is \<open>str(result)\<close>, which \<open>getattr\<close> falls back to.
  \<open>sources\<close> is the attribute \<open>sources\<close>: absent or \<open>None\<close>, a list of strings, or a
  string. The call of the engine can end in three ways: it returns a result, it raises an
  exception (kept as its message), or the user interrupts it (\<open>KeyboardInterrupt\<close>, which
  \<open>except Exception\<close> does not catch). The engine itself is a parameter of the model.
\<close>

datatype sources_val = SourceList "string list" | SourceText string

record answer_result =
  answer :: "string option"
  repr :: string
  sources :: "sources_val option"

datatype outcome = Returns answer_result | Raises string | Interrupted

type_synonym engine = "(string \<rightharpoonup> string) \<Rightarrow> string \<Rightarrow> string \<Rightarrow> outcome"

text \<open>
  What the controller prints. \<open>Markup text\<close> is a \<open>console.print\<close> or \<open>console.rule\<close>
  of a markup text built from a question, an answer or an error message; the fixed texts
  and tables have a constructor each. \<open>Welcome\<close> is the banner of \<open>print_welcome\<close>; it is
  printed once before the loop starts, so its text has rendered when \<open>reset\<close> prints it
  again.
\<close>

datatype display =
    Prompt
  | Blank
  | HelpTable
  | Welcome
  | NoHistoryYet
  | ContextNote nat
  | AnswerRule
  | Markup string
  | AnswerPanel string
  | SourcesPanel string

text \<open>
  The state of \<open>main\<close> in its loop: the history, what is on the console, whether the
  loop goes on, and the exception that has left \<open>main\<close>, if one has.
\<close>

record session =
  history :: "(string \<times> string) list"
  console :: "display list"
  running :: bool
  uncaught :: "error option"

text \<open>\<open>lower\<close> is \<open>str.lower()\<close> on the code points below 256.\<close>

definition lower_char :: "char \<Rightarrow> char" where
  "lower_char c =
     (let n = of_char c :: nat
      in if (65 \<le> n \<and> n \<le> 90) \<or> (192 \<le> n \<and> n \<le> 222 \<and> n \<noteq> 215)
         then char_of (n + 32) else c)"

definition lower :: "string \<Rightarrow> string" where
  "lower s = map lower_char s"

text \<open>\<open>elide n s\<close> is the source's \<open>s[:n]\<close> followed by \<open>...\<close> when \<open>s\<close> is longer.\<close>

definition elide :: "nat \<Rightarrow> string \<Rightarrow> string" where
  "elide n s = slice_to s (int n) @ (if length s > n then ''...'' else [])"

text \<open>The markup texts that contain data, as the f-strings of the source build them.\<close>

definition question_rule_text :: "string \<Rightarrow> string" where
  "question_rule_text question = ''[bold]'' @ elide 60 question @ ''[/bold]''"

definition error_text :: "string \<Rightarrow> string" where
  "error_text e = [NL] @ ''[red]Error: '' @ e @ ''[/red]''"

definition history_q_text :: "int \<Rightarrow> string \<Rightarrow> string" where
  "history_q_text i q = [NL] @ ''[cyan]Q'' @ str_int i @ '':[/cyan] '' @ q"

definition history_a_text :: "int \<Rightarrow> string \<Rightarrow> string" where
  "history_a_text i a = ''[green]A'' @ str_int i @ '':[/green] '' @ elide 200 a"

text \<open>
  The bullet that starts each line of the sources panel is the code point \<open>U+2022\<close>,
  outside the characters of \<open>string\<close>; it is kept as its three UTF-8 bytes.
\<close>

definition bullet :: string where
  "bullet = [CHR 0xE2, CHR 0x80, CHR 0xA2]"

definition sources_text :: "sources_val \<Rightarrow> string" where
  "sources_text v =
     (case v of
        SourceList ss \<Rightarrow> str_join [NL] (map (\<lambda>s. bullet @ '' '' @ s) ss)
      | SourceText s \<Rightarrow> s)"

text \<open>\<open>truthy v\<close>: the test \<open>if sources:\<close> on a value that is not \<open>None\<close>.\<close>

definition truthy :: "sources_val \<Rightarrow> bool" where
  "truthy v = (case v of SourceList ss \<Rightarrow> ss \<noteq> [] | SourceText s \<Rightarrow> s \<noteq> [])"

definition answer_text :: "answer_result \<Rightarrow> string" where
  "answer_text result = (case answer result of Some a \<Rightarrow> a | None \<Rightarrow> repr result)"

text \<open>
  \<open>display_answer\<close>: what it prints, and the message of the \<open>MarkupError\<close> it raises,
  if it raises. The answer is shown as Markdown; the text of the sources panel is parsed
  as console markup when the panel is printed.
\<close>

definition display_answer :: "markup \<Rightarrow> answer_result \<Rightarrow> display list \<times> string option" where
  "display_answer mk result =
     (let shown = [Blank, AnswerRule, Blank, AnswerPanel (answer_text result)]
      in case sources result of
           None \<Rightarrow> (shown, None)
         | Some v \<Rightarrow>
             if \<not> truthy v then (shown, None)
             else (case mk (sources_text v) of
                     Some m \<Rightarrow> (shown @ [Blank], Some m)
                   | None \<Rightarrow> (shown @ [Blank, SourcesPanel (sources_text v)], None)))"

text \<open>
  The \<open>history\<close> command prints two markup texts for every pair; a \<open>MarkupError\<close> there is
  caught nowhere.
\<close>

fun show_history :: "markup \<Rightarrow> (int \<times> string \<times> string) list \<Rightarrow> display list \<times> error option" where
  "show_history mk [] = ([], None)"
| "show_history mk ((i, q, a) # rest) =
     (case mk (history_q_text i q) of
        Some m \<Rightarrow> ([], Some (MarkupError m))
      | None \<Rightarrow>
          (case mk (history_a_text i a) of
             Some m \<Rightarrow> ([Markup (history_q_text i q)], Some (MarkupError m))
           | None \<Rightarrow>
               (let (shown, e) = show_history mk rest
                in (Markup (history_q_text i q) # Markup (history_a_text i a) # shown, e))))"

text \<open>
  The handler \<open>except Exception as e\<close> of the inner \<open>try\<close>, followed by the
  \<open>console.print()\<close> that ends the loop body: it prints the message as console markup, and
  an exception raised by that print leaves \<open>main\<close>.
\<close>

definition report_error :: "markup \<Rightarrow> session \<Rightarrow> display list \<Rightarrow> string \<Rightarrow> session" where
  "report_error mk st shown e =
     (case mk (error_text e) of
        Some m \<Rightarrow> st\<lparr>console := shown, running := False, uncaught := Some (MarkupError m)\<rparr>
      | None \<Rightarrow> st\<lparr>console := shown @ [Markup (error_text e), Blank]\<rparr>)"

text \<open>
  A question is put to the engine (from \<open>console.print()\<close> after the commands down to
  the \<open>console.print()\<close> that ends the loop body). The rule with the question is printed
  outside the inner \<open>try\<close>. Inside it the engine is called, \<open>display_answer\<close> shows the
  result, and then the exchange is appended; an exception of the call or of
  \<open>display_answer\<close> goes to the handler; an interrupt leaves through the outer \<open>except\<close>
  and ends the loop.
\<close>

definition ask :: "markup \<Rightarrow> engine \<Rightarrow> (string \<rightharpoonup> string) \<Rightarrow> session \<Rightarrow> string \<Rightarrow> session" where
  "ask mk rlm transcripts st question =
     (let shown = console st @ [Blank]
                  @ (if history st \<noteq> [] then [ContextNote (length (history st))] else [])
      in case mk (question_rule_text question) of
           Some m \<Rightarrow> st\<lparr>console := shown, running := False, uncaught := Some (MarkupError m)\<rparr>
         | None \<Rightarrow>
             (let shown = shown @ [Markup (question_rule_text question)]
              in case rlm transcripts (format_history (history st)) question of
                   Returns result \<Rightarrow>
                     (case display_answer mk result of
                        (panels, None) \<Rightarrow>
                          st\<lparr>history := history st @ [(question, answer_text result)],
                             console := shown @ panels @ [Blank]\<rparr>
                      | (panels, Some m) \<Rightarrow> report_error mk st (shown @ panels) m)
                 | Raises e \<Rightarrow> report_error mk st shown e
                 | Interrupted \<Rightarrow> st\<lparr>console := shown, running := False\<rparr>))"

datatype input = Line string | Interrupt

text \<open>
  One turn of the \<open>while True\<close> loop of \<open>main\<close>, on what \<open>input()\<close> gives: a line, or
  an interrupt or the end of the input.
\<close>

definition loop_body :: "markup \<Rightarrow> engine \<Rightarrow> (string \<rightharpoonup> string) \<Rightarrow> session \<Rightarrow> input \<Rightarrow> session" where
  "loop_body mk rlm transcripts st inp =
     (let st0 = st\<lparr>console := console st @ [Prompt]\<rparr>
      in case inp of
           Interrupt \<Rightarrow> st0\<lparr>running := False\<rparr>
         | Line raw \<Rightarrow>
             (let question = strip raw; cmd = lower question
              in if question = [] then st0
                 else if cmd \<in> set [''quit'', ''exit'', ''q''] then st0\<lparr>running := False\<rparr>
                 else if cmd = ''help'' then st0\<lparr>console := console st0 @ [HelpTable, Blank]\<rparr>
                 else if cmd = ''reset''
                   then st0\<lparr>history := [], console := [Blank, Welcome, Blank]\<rparr>
                 else if cmd = ''history''
                   then (if history st0 = []
                         then st0\<lparr>console := console st0 @ [NoHistoryYet, Blank]\<rparr>
                         else (case show_history mk (py_enumerate (history st0) 1) of
                                 (shown, None) \<Rightarrow> st0\<lparr>console := console st0 @ shown @ [Blank]\<rparr>
                               | (shown, Some err) \<Rightarrow>
                                   st0\<lparr>console := console st0 @ shown, running := False,
                                       uncaught := Some err\<rparr>))
                 else ask mk rlm transcripts st0 question))"

text \<open>The loop over the lines typed; the end of the input ends it as an interrupt does.\<close>

fun main_loop :: "markup \<Rightarrow> engine \<Rightarrow> (string \<rightharpoonup> string) \<Rightarrow> session \<Rightarrow> string list \<Rightarrow> session" where
  "main_loop mk rlm transcripts st [] = loop_body mk rlm transcripts st Interrupt"
| "main_loop mk rlm transcripts st (l # ls) =
     (let st' = loop_body mk rlm transcripts st (Line l)
      in if running st' then main_loop mk rlm transcripts st' ls else st')"

section \<open>Facts about the string operations\<close>

lemma find_idx_None_iff: "find_idx sub s = None \<longleftrightarrow> \<not> sublist sub s"
  by (induction s) (auto simp: sublist_Cons_right)

lemma contains_sublist: "contains sub s \<longleftrightarrow> sublist sub s"
  by (simp add: contains_def find_idx_None_iff)

lemma find_idx_prefix: "find_idx sub s = Some j \<Longrightarrow> prefix sub (drop j s)"
proof (induction s arbitrary: j)
  case Nil
  then show ?case by (simp split: if_splits)
next
  case (Cons c cs)
  show ?case
  proof (cases "prefix sub (c # cs)")
    case True
    with Cons.prems show ?thesis by simp
  next
    case False
    with Cons.prems obtain k where "find_idx sub cs = Some k" "j = Suc k" by auto
    with Cons.IH show ?thesis by simp
  qed
qed

lemma find_idx_decomp:
  assumes "find_idx sub s = Some j"
  shows "s = take j s @ sub @ drop (j + length sub) s"
proof -
  from assms have "prefix sub (drop j s)" by (rule find_idx_prefix)
  then obtain r where r: "drop j s = sub @ r" by (auto simp: prefix_def)
  then have "drop (j + length sub) s = r"
    by (metis add.commute append_eq_conv_conj drop_drop)
  with r have "drop j s = sub @ drop (j + length sub) s" by simp
  then show ?thesis by (metis append_take_drop_id)
qed




lemma find_idx_char_None: "c \<notin> set s \<Longrightarrow> find_idx [c] s = None"
  by (induction s) auto


lemma str_split_none: "\<not> sublist sep s \<Longrightarrow> str_split s sep n = [s]"
  by (simp add: str_split.simps [of s sep n] find_idx_None_iff [symmetric])


section \<open>The progress handler: examples and failure\<close>

lemma emit_no_marker: "\<not> sublist ''RLM iteration'' msg \<Longrightarrow> emit msg = Inr []"
  by (simp add: emit_def contains_sublist)

text \<open>
  C9. A line that does not contain the marker \<open>RLM iteration\<close> gives no event, and the
  line \<open>"RLM iteration 3/20\nReasoning: because X\nCode: print(1)"\<close> gives the step
  \<open>3\<close>, one reasoning panel with the text \<open>because X\<close> and one code panel with the text
  \<open>print(1)\<close>, in this order and nothing else.
\<close>

theorem emit_examples:
  "(\<not> sublist ''RLM iteration'' msg \<longrightarrow> emit msg = Inr []) \<and>
   emit (''RLM iteration 3/20'' @ [NL] @ ''Reasoning: because X'' @ [NL] @ ''Code: print(1)'')
     = Inr [IterationStart ''3'', ReasoningBlock ''because X'', CodeBlock ''print(1)'']"
proof
  show "\<not> sublist ''RLM iteration'' msg \<longrightarrow> emit msg = Inr []"
    by (simp add: emit_no_marker)
  show "emit (''RLM iteration 3/20'' @ [NL] @ ''Reasoning: because X'' @ [NL] @ ''Code: print(1)'')
     = Inr [IterationStart ''3'', ReasoningBlock ''because X'', CodeBlock ''print(1)'']"
    by code_simp
qed

theorem emit_examples_witness:
  "\<not> sublist ''RLM iteration'' ''Starting RLM run'' \<and> emit ''Starting RLM run'' = Inr []"
proof -
  have h: "\<not> sublist ''RLM iteration'' ''Starting RLM run''" by code_simp
  with emit_examples [of "''Starting RLM run''"] show ?thesis by blast
qed

text \<open>
  C1. The claim is that \<open>emit\<close> never raises. The guard at its head looks for the marker
  in the whole message, and the index is then read from the first line only: on the
  message \<open>"note\nRLM iteration 3/20"\<close> the first line \<open>note\<close> has no \<open>iteration\<close>,
  \<open>header.split("iteration")\<close> has one element, and \<open>[1]\<close> raises \<open>IndexError\<close>; nothing
  is printed for the line.
\<close>

theorem emit_raises_on_marker_after_newline:
  "emit (''note'' @ [NL] @ ''RLM iteration 3/20'') = Inl IndexError"
  by code_simp

section \<open>The progress handler: its parts\<close>


lemma str_split_nonempty: "str_split s sep n \<noteq> []"
  by (subst str_split.simps) (simp split: option.splits)

lemma str_split_two:
  assumes "sep \<noteq> []" "n \<noteq> 0" "sublist sep s"
  shows "2 \<le> length (str_split s sep n)"
proof -
  from assms(3) obtain j where j: "find_idx sep s = Some j"
    using find_idx_None_iff [of sep s] by auto
  have "str_split s sep n = take j s # str_split (drop (j + length sep) s) sep (n - 1)"
    using assms(1,2) j by (simp add: str_split.simps [of s sep n])
  moreover have "str_split (drop (j + length sep) s) sep (n - 1) \<noteq> []"
    by (rule str_split_nonempty)
  ultimately show ?thesis
    by (cases "str_split (drop (j + length sep) s) sep (n - 1)") simp_all
qed

lemma iter_num_of_ok:
  "(\<exists>n. iter_num_of header = Inr n) \<longleftrightarrow> sublist ''iteration'' header"
proof (cases "sublist ''iteration'' header")
  case True
  then have "2 \<le> length (str_split header ''iteration'' (- 1))"
    by (intro str_split_two) simp_all
  moreover have "0 < length (str_split (strip seg) ''/'' (- 1))" for seg
    using str_split_nonempty [of "strip seg" "''/''" "- 1"] by simp
  ultimately show ?thesis using True
    by (simp add: iter_num_of_def getitem_def)
next
  case False
  then have "str_split header ''iteration'' (- 1) = [header]"
    by (rule str_split_none)
  with False show ?thesis
    by (simp add: iter_num_of_def getitem_def)
qed

lemma iter_num_of_error: "\<not> sublist ''iteration'' header \<Longrightarrow> iter_num_of header = Inl IndexError"
proof -
  assume "\<not> sublist ''iteration'' header"
  then have "str_split header ''iteration'' (- 1) = [header]"
    by (rule str_split_none)
  then show ?thesis by (simp add: iter_num_of_def getitem_def)
qed













































section \<open>The progress handler: truncation, segments and step\<close>












section \<open>The corpus loader: titles and entries\<close>


















section \<open>The session controller: history\<close>

lemma history_report_error: "history (report_error mk st shown e) = history st"
  by (simp add: report_error_def split: option.splits)

lemma history_ask:
  "history (ask mk rlm transcripts st question) =
     (case mk (question_rule_text question) of
        Some m \<Rightarrow> history st
      | None \<Rightarrow>
          (case rlm transcripts (format_history (history st)) question of
             Returns result \<Rightarrow>
               (case snd (display_answer mk result) of
                  None \<Rightarrow> history st @ [(question, answer_text result)]
                | Some m \<Rightarrow> history st)
           | Raises e \<Rightarrow> history st
           | Interrupted \<Rightarrow> history st))"
proof (cases "mk (question_rule_text question)")
  case (Some m)
  then show ?thesis by (simp add: ask_def Let_def)
next
  case None
  show ?thesis
  proof (cases "rlm transcripts (format_history (history st)) question")
    case (Returns result)
    obtain panels e where "display_answer mk result = (panels, e)"
      by (cases "display_answer mk result")
    with None Returns show ?thesis
      by (cases e) (simp_all add: ask_def Let_def history_report_error)
  next
    case (Raises e)
    with None show ?thesis by (simp add: ask_def Let_def history_report_error)
  next
    case Interrupted
    with None show ?thesis by (simp add: ask_def Let_def)
  qed
qed

text \<open>
  C2, as amended. A line that is not blank and not a command is a question. After the
  turn of the loop that handles it, the history is the old history with the one pair of
  the question and the answer appended exactly when the rule with the question has
  rendered, the engine call has returned a result and \<open>display_answer\<close> has shown it
  without raising; in every other case (the call raised or was interrupted, or a print
  raised) the history is the old history, unchanged.
\<close>

theorem history_after_question:
  assumes "strip raw = question" and "question \<noteq> []"
    and "lower question \<notin> set [''quit'', ''exit'', ''q'', ''help'', ''reset'', ''history'']"
  shows "history (loop_body mk rlm transcripts st (Line raw)) =
           (case mk (question_rule_text question) of
              Some m \<Rightarrow> history st
            | None \<Rightarrow>
                (case rlm transcripts (format_history (history st)) question of
                   Returns result \<Rightarrow>
                     (case snd (display_answer mk result) of
                        None \<Rightarrow> history st @ [(question, answer_text result)]
                      | Some m \<Rightarrow> history st)
                 | Raises e \<Rightarrow> history st
                 | Interrupted \<Rightarrow> history st))"
proof -
  let ?st0 = "st\<lparr>console := console st @ [Prompt]\<rparr>"
  from assms have "loop_body mk rlm transcripts st (Line raw) = ask mk rlm transcripts ?st0 question"
    by (simp add: loop_body_def Let_def)
  then show ?thesis
    using history_ask [of mk rlm transcripts ?st0 question]
    by (simp cong: option.case_cong outcome.case_cong)
qed

theorem history_after_question_witness:
  "strip '' hi '' = ''hi'' \<and> ''hi'' \<noteq> [] \<and>
   lower ''hi'' \<notin> set [''quit'', ''exit'', ''q'', ''help'', ''reset'', ''history''] \<and>
   history (loop_body refuse_close_x
              (\<lambda>t h q. Returns \<lparr>answer = Some ''hello'', repr = [], sources = Some (SourceText ''ep 1'')\<rparr>)
              Map.empty \<lparr>history = [], console = [], running = True, uncaught = None\<rparr>
              (Line '' hi '')) = [(''hi'', ''hello'')]"
proof -
  have 1: "strip '' hi '' = ''hi''" by code_simp
  have 2: "lower ''hi'' \<notin> set [''quit'', ''exit'', ''q'', ''help'', ''reset'', ''history'']"
    by code_simp
  have 3: "refuse_close_x (question_rule_text ''hi'') = None" by code_simp
  have 4: "snd (display_answer refuse_close_x
             \<lparr>answer = Some ''hello'', repr = [], sources = Some (SourceText ''ep 1'')\<rparr>) = None"
    by code_simp
  show ?thesis
    using history_after_question [OF 1 _ 2, of refuse_close_x
        "\<lambda>t h q. Returns \<lparr>answer = Some ''hello'', repr = [], sources = Some (SourceText ''ep 1'')\<rparr>"
        Map.empty "\<lparr>history = [], console = [], running = True, uncaught = None\<rparr>"]
      1 2 3 4
    by (simp add: answer_text_def)
qed

text \<open>
  C2 as stated fails: the engine call returns a result whose sources are the list with
  the one string \<open>[/x]\<close>. The sources panel raises \<open>MarkupError\<close> inside the \<open>try\<close>, before
  the append; the handler prints the message, which quotes the tag, and raises again.
  The exception leaves \<open>main\<close> and the history is still empty.
\<close>

theorem history_not_appended_counterexample:
  "history (loop_body refuse_close_x
              (\<lambda>t h q. Returns \<lparr>answer = Some ''hello'', repr = [], sources = Some (SourceList [''[/x]''])\<rparr>)
              Map.empty \<lparr>history = [], console = [], running = True, uncaught = None\<rparr>
              (Line ''hi'')) = [] \<and>
   uncaught (loop_body refuse_close_x
              (\<lambda>t h q. Returns \<lparr>answer = Some ''hello'', repr = [], sources = Some (SourceList [''[/x]''])\<rparr>)
              Map.empty \<lparr>history = [], console = [], running = True, uncaught = None\<rparr>
              (Line ''hi''))
     = Some (MarkupError ''closing tag [/x] does not match any open tag'')"
  by code_simp

section \<open>The history formatter: the text produced\<close>

lemma fold_extend:
  "fold (\<lambda>x ls. ls @ g x) xs acc = acc @ concat (map g xs)"
  by (induction xs arbitrary: acc) simp_all

lemma str_join_Cons: "str_join sep (x # ys) = x @ concat (map (\<lambda>y. sep @ y) ys)"
  by (induction ys arbitrary: x) simp_all

lemma py_enumerate_fst: "map fst (py_enumerate xs i) = map (\<lambda>k. i + int k) [0..<length xs]"
proof (induction xs arbitrary: i)
  case Nil
  then show ?case by simp
next
  case (Cons x xs)
  have "map (\<lambda>k. i + int k) [0..<length (x # xs)] = i # map (\<lambda>k. i + int k) (map Suc [0..<length xs])"
    by (simp only: length_Cons upt_rec [of 0 "Suc (length xs)"] map_Suc_upt) simp
  also have "\<dots> = i # map (\<lambda>k. (i + 1) + int k) [0..<length xs]"
    by (simp add: comp_def algebra_simps)
  finally show ?case using Cons.IH [of "i + 1"] by simp
qed

lemma py_enumerate_snd: "map snd (py_enumerate xs i) = xs"
  by (induction xs arbitrary: i) simp_all

lemma format_history_closed:
  assumes "h \<noteq> []"
  shows "format_history h = ''Previous conversation:'' @
      concat (map (\<lambda>(n, q, a). [NL, NL] @ ''Q'' @ str_int n @ '': '' @ q
                               @ [NL] @ ''A'' @ str_int n @ '': '' @ a)
                  (py_enumerate h 1))"
proof -
  let ?g = "\<lambda>(i, q, a). [[NL] @ ''Q'' @ str_int i @ '': '' @ q, ''A'' @ str_int i @ '': '' @ a]"
  have f: "(\<lambda>(i, q, a) lines. lines @ [[NL] @ ''Q'' @ str_int i @ '': '' @ q, ''A'' @ str_int i @ '': '' @ a])
           = (\<lambda>x ls. ls @ ?g x)"
    by (auto simp: fun_eq_iff)
  have "format_history h = str_join [NL] ([''Previous conversation:''] @ concat (map ?g (py_enumerate h 1)))"
    using assms unfolding format_history_def f by (simp only: fold_extend if_False)
  also have "\<dots> = ''Previous conversation:'' @ concat (map (\<lambda>y. [NL] @ y) (concat (map ?g (py_enumerate h 1))))"
    by (simp only: append_Cons append_Nil str_join_Cons)
  also have "concat (map (\<lambda>y. [NL] @ y) (concat (map ?g (py_enumerate h 1))))
      = concat (map (\<lambda>(n, q, a). [NL, NL] @ ''Q'' @ str_int n @ '': '' @ q
                               @ [NL] @ ''A'' @ str_int n @ '': '' @ a) (py_enumerate h 1))"
  proof -
    have "concat (map (\<lambda>y. [NL] @ y) (concat (map ?g xs)))
      = concat (map (\<lambda>(n, q, a). [NL, NL] @ ''Q'' @ str_int n @ '': '' @ q
                               @ [NL] @ ''A'' @ str_int n @ '': '' @ a) xs)" for xs
      by (induction xs) auto
    then show ?thesis .
  qed
  finally show ?thesis .
qed

text \<open>
  C7. The empty history gives the sentinel \<open>No previous conversation.\<close>. A history that
  is not empty gives the header line \<open>Previous conversation:\<close> followed, for every pair
  in order, by an empty line, the line \<open>Qn: \<close> and the question, and the line \<open>An: \<close> and
  the answer, where \<open>n\<close> counts the pairs from 1.
\<close>

theorem format_history_shape:
  "format_history [] = ''No previous conversation.'' \<and>
   (h \<noteq> [] \<longrightarrow>
      format_history h = ''Previous conversation:'' @
        concat (map (\<lambda>(n, q, a). [NL, NL] @ ''Q'' @ str_int n @ '': '' @ q
                                 @ [NL] @ ''A'' @ str_int n @ '': '' @ a)
                    (py_enumerate h 1))) \<and>
   map fst (py_enumerate h 1) = map (\<lambda>k. 1 + int k) [0..<length h] \<and>
   map snd (py_enumerate h 1) = h"
proof (intro conjI impI)
  show "format_history [] = ''No previous conversation.''"
    by (simp add: format_history_def)
  show "map fst (py_enumerate h 1) = map (\<lambda>k. 1 + int k) [0..<length h]"
    by (rule py_enumerate_fst)
  show "map snd (py_enumerate h 1) = h"
    by (rule py_enumerate_snd)
qed (rule format_history_closed)

lemma str_int_1: "str_int 1 = ''1''" by code_simp
lemma str_int_2: "str_int 2 = ''2''" by code_simp

theorem format_history_shape_witness:
  "[(''Q1?'', ''A1.''), (''Q2?'', ''A2.'')] \<noteq> [] \<and>
   format_history [(''Q1?'', ''A1.''), (''Q2?'', ''A2.'')] =
     ''Previous conversation:'' @ [NL, NL] @ ''Q1: Q1?'' @ [NL] @ ''A1: A1.''
       @ [NL, NL] @ ''Q2: Q2?'' @ [NL] @ ''A2: A2.''"
  using format_history_shape [of "[(''Q1?'', ''A1.''), (''Q2?'', ''A2.'')]"]
  by (simp add: str_int_1 str_int_2)














end
